theory Spec2Isabelle
  imports Complex_Main "HOL-Library.Word" "HOL-Library.AList"
begin

section \<open>Doubles\<close>

text \<open>
  Every numeric field of the pipeline is a C++ \<^verbatim>\<open>double\<close>. A double is modelled as a real
  number or one of the three special values of IEEE 754. The special values follow the
  IEEE 754 tables, because the code divides by values it has not checked and compares
  values that may be NaN. On finite values the operations are the exact real ones:
  rounding, overflow of a finite result to an infinity and the sign of zero are not
  modelled (a zero divisor counts as +0.0). A decimal literal of the code (\<open>0.3\<close>, \<open>0.1\<close>,
  \<open>1e-6\<close>) is the real number it denotes, where the code has the nearest double. The
  statements below that hold for all inputs are therefore stated on the operations of the
  code (\<open>dadd\<close>, \<open>dmul\<close>, \<open>ddiv\<close> and the comparisons) and not on real arithmetic; real
  values appear only in the evaluation of the concrete scenarios.
\<close>

datatype double = Num real | PosInf | NegInf | NaN

fun dneg :: "double \<Rightarrow> double" where
  "dneg (Num x) = Num (- x)"
| "dneg PosInf = NegInf"
| "dneg NegInf = PosInf"
| "dneg NaN = NaN"

fun dadd :: "double \<Rightarrow> double \<Rightarrow> double" where
  "dadd (Num x) (Num y) = Num (x + y)"
| "dadd NaN _ = NaN"
| "dadd _ NaN = NaN"
| "dadd PosInf NegInf = NaN"
| "dadd NegInf PosInf = NaN"
| "dadd PosInf _ = PosInf"
| "dadd _ PosInf = PosInf"
| "dadd NegInf _ = NegInf"
| "dadd _ NegInf = NegInf"

definition dsub :: "double \<Rightarrow> double \<Rightarrow> double" where
  "dsub a b = dadd a (dneg b)"

fun dmul :: "double \<Rightarrow> double \<Rightarrow> double" where
  "dmul (Num x) (Num y) = Num (x * y)"
| "dmul NaN _ = NaN"
| "dmul _ NaN = NaN"
| "dmul (Num x) b = (if x = 0 then NaN else if 0 < x then b else dneg b)"
| "dmul a (Num y) = (if y = 0 then NaN else if 0 < y then a else dneg a)"
| "dmul PosInf b = b"
| "dmul NegInf b = dneg b"

fun ddiv :: "double \<Rightarrow> double \<Rightarrow> double" where
  "ddiv (Num x) (Num y) =
     (if y = 0 then (if x = 0 then NaN else if 0 < x then PosInf else NegInf)
      else Num (x / y))"
| "ddiv NaN _ = NaN"
| "ddiv _ NaN = NaN"
| "ddiv (Num x) _ = Num 0"
| "ddiv a (Num y) = (if 0 \<le> y then a else dneg a)"
| "ddiv _ _ = NaN"

fun dless :: "double \<Rightarrow> double \<Rightarrow> bool" where
  "dless (Num x) (Num y) = (x < y)"
| "dless NaN _ = False"
| "dless _ NaN = False"
| "dless NegInf b = (b \<noteq> NegInf)"
| "dless a PosInf = (a \<noteq> PosInf)"
| "dless _ _ = False"

definition deq :: "double \<Rightarrow> double \<Rightarrow> bool" where
  "deq a b = (a \<noteq> NaN \<and> a = b)"

definition dle :: "double \<Rightarrow> double \<Rightarrow> bool" where
  "dle a b = (dless a b \<or> deq a b)"

definition dgt :: "double \<Rightarrow> double \<Rightarrow> bool" where
  "dgt a b = dless b a"

definition dge :: "double \<Rightarrow> double \<Rightarrow> bool" where
  "dge a b = dle b a"

fun dabs :: "double \<Rightarrow> double" where
  "dabs (Num x) = Num \<bar>x\<bar>"
| "dabs NaN = NaN"
| "dabs _ = PosInf"

fun dsqrt :: "double \<Rightarrow> double" where
  "dsqrt (Num x) = (if x < 0 then NaN else Num (sqrt x))"
| "dsqrt PosInf = PosInf"
| "dsqrt _ = NaN"

fun dtanh :: "double \<Rightarrow> double" where
  "dtanh (Num x) = Num (tanh x)"
| "dtanh PosInf = Num 1"
| "dtanh NegInf = Num (- 1)"
| "dtanh NaN = NaN"

text \<open>\<^verbatim>\<open>std::min(a, b)\<close> is \<^verbatim>\<open>(b < a) ? b : a\<close> and \<^verbatim>\<open>std::max(a, b)\<close> is
  \<^verbatim>\<open>(a < b) ? b : a\<close>: with a NaN argument both return their first argument.\<close>

definition std_min :: "double \<Rightarrow> double \<Rightarrow> double" where
  "std_min a b = (if dless b a then b else a)"

definition std_max :: "double \<Rightarrow> double \<Rightarrow> double" where
  "std_max a b = (if dless a b then b else a)"

text \<open>A \<^verbatim>\<open>size_t\<close> converted to double.\<close>

definition of_size :: "nat \<Rightarrow> double" where
  "of_size n = Num (real n)"

text \<open>\<^verbatim>\<open>static_cast<size_t>\<close> of an \<^verbatim>\<open>int\<close>: a negative value wraps modulo \<open>2^64\<close>.\<close>

definition size_t_of_int :: "int \<Rightarrow> nat" where
  "size_t_of_int i = nat (i mod 2 ^ 64)"

text \<open>Membership of a closed interval, as the comparisons of the code decide it
  (a NaN is in no interval).\<close>

definition in_range :: "real \<Rightarrow> real \<Rightarrow> double \<Rightarrow> bool" where
  "in_range lo hi x = (dle (Num lo) x \<and> dle x (Num hi))"


section \<open>Alpha strategies (alpha\_strategy.hpp, alpha\_strategy.cpp, alpha\_engine.hpp)\<close>

record MarketData =
  symbol :: string
  price :: double
  volume :: int
  timestampNs :: int

record AlphaSignal =
  sig_alphaId :: string
  sig_symbol :: string
  signal :: double
  confidence :: double
  sig_timestampNs :: int

definition MIN_SIGNAL :: double where "MIN_SIGNAL = Num (- 1)"
definition MAX_SIGNAL :: double where "MAX_SIGNAL = Num 1"

subsection \<open>MeanReversionAlpha\<close>

record MeanReversionAlpha =
  mr_alphaId :: string
  windowSize :: int
  priceHistory :: "double list"
  mr_initialized :: bool
  mr_lastUpdateTime :: int

text \<open>The constructor: \<^verbatim>\<open>initialized_{false}\<close>, \<^verbatim>\<open>lastUpdateTime_{0}\<close>, an empty history.
  (With a negative window the \<^verbatim>\<open>reserve\<close> of the constructor throws; the scenarios construct
  with a positive one.)\<close>

definition MeanReversionAlpha_new :: "string \<Rightarrow> int \<Rightarrow> MeanReversionAlpha" where
  "MeanReversionAlpha_new alphaId w =
     \<lparr>mr_alphaId = alphaId, windowSize = w, priceHistory = [],
      mr_initialized = False, mr_lastUpdateTime = 0\<rparr>"

definition mr_initialize :: "MeanReversionAlpha \<Rightarrow> MeanReversionAlpha" where
  "mr_initialize s = s\<lparr>priceHistory := [], mr_initialized := True\<rparr>"

definition mr_shutdown :: "MeanReversionAlpha \<Rightarrow> MeanReversionAlpha" where
  "mr_shutdown s = s\<lparr>priceHistory := [], mr_initialized := False\<rparr>"

text \<open>\<^verbatim>\<open>isActive\<close>: \<^verbatim>\<open>initialized_ && IAlphaStrategy::isActive()\<close>, the latter being true.\<close>

definition mr_isActive :: "MeanReversionAlpha \<Rightarrow> bool" where
  "mr_isActive s = (mr_initialized s \<and> True)"

text \<open>\<^verbatim>\<open>std::accumulate\<close> is a left fold.\<close>

definition calculateMean :: "double list \<Rightarrow> double" where
  "calculateMean h = ddiv (foldl dadd (Num 0) h) (of_size (length h))"

definition calculateStdDev :: "double list \<Rightarrow> double" where
  "calculateStdDev h =
     (let mean = calculateMean h;
          variance = ddiv (foldl (\<lambda>acc p. let diff = dsub p mean
                                           in dadd acc (dmul diff diff)) (Num 0) h)
                          (of_size (length h))
      in dsqrt variance)"

definition mr_onMarketData ::
  "MeanReversionAlpha \<Rightarrow> MarketData \<Rightarrow> MeanReversionAlpha \<times> AlphaSignal option" where
  "mr_onMarketData s d =
     (if \<not> mr_initialized s then (s, None)
      else
        let h1 = priceHistory s @ [price d];
            h2 = (if size_t_of_int (windowSize s) < length h1 then tl h1 else h1);
            s1 = s\<lparr>priceHistory := h2\<rparr>
        in if length h2 < size_t_of_int (windowSize s) then (s1, None)
           else
             let mean = calculateMean h2;
                 stdDev = calculateStdDev h2
             in if dless stdDev (Num (1 / 10 ^ 6)) then (s1, None)
                else
                  let zScore = ddiv (dsub (price d) mean) stdDev;
                      sgn = std_max MIN_SIGNAL (std_min MAX_SIGNAL (dneg zScore));
                      conf = std_min (Num 1) (ddiv (dabs zScore) (Num 3))
                  in (s1\<lparr>mr_lastUpdateTime := timestampNs d\<rparr>,
                      Some \<lparr>sig_alphaId = mr_alphaId s, sig_symbol = symbol d,
                            signal = sgn, confidence = conf,
                            sig_timestampNs = timestampNs d\<rparr>))"

text \<open>Feeding a sequence of ticks in order; the outputs are collected in the same order.\<close>

fun mr_feed ::
  "MeanReversionAlpha \<Rightarrow> MarketData list \<Rightarrow> MeanReversionAlpha \<times> AlphaSignal option list" where
  "mr_feed s [] = (s, [])"
| "mr_feed s (d # ds) =
     (let (s1, out) = mr_onMarketData s d;
          (s2, outs) = mr_feed s1 ds
      in (s2, out # outs))"

subsection \<open>MomentumAlpha\<close>

record MomentumAlpha =
  mo_alphaId :: string
  lookbackPeriod :: int
  returns :: "double list"
  mo_lastPrice :: "double option"
  mo_lastUpdateTime :: int

definition MomentumAlpha_new :: "string \<Rightarrow> int \<Rightarrow> MomentumAlpha" where
  "MomentumAlpha_new alphaId l =
     \<lparr>mo_alphaId = alphaId, lookbackPeriod = l, returns = [],
      mo_lastPrice = None, mo_lastUpdateTime = 0\<rparr>"

definition mo_initialize :: "MomentumAlpha \<Rightarrow> MomentumAlpha" where
  "mo_initialize s = s\<lparr>returns := [], mo_lastPrice := None\<rparr>"

definition mo_shutdown :: "MomentumAlpha \<Rightarrow> MomentumAlpha" where
  "mo_shutdown s = s\<lparr>returns := [], mo_lastPrice := None\<rparr>"

text \<open>MomentumAlpha does not override \<^verbatim>\<open>isActive\<close>: the default of IAlphaStrategy applies.\<close>

definition mo_isActive :: "MomentumAlpha \<Rightarrow> bool" where
  "mo_isActive s = True"

definition mo_onMarketData ::
  "MomentumAlpha \<Rightarrow> MarketData \<Rightarrow> MomentumAlpha \<times> AlphaSignal option" where
  "mo_onMarketData s d =
     (let rs = (case mo_lastPrice s of
                  None \<Rightarrow> returns s
                | Some lp \<Rightarrow>
                    let ret = ddiv (dsub (price d) lp) lp;
                        r1 = returns s @ [ret]
                    in if size_t_of_int (lookbackPeriod s) < length r1 then tl r1 else r1);
          s1 = s\<lparr>returns := rs, mo_lastPrice := Some (price d)\<rparr>
      in if length rs < size_t_of_int (lookbackPeriod s) then (s1, None)
         else
           let cumulativeReturn = foldl dadd (Num 0) rs;
               sgn = dtanh (dmul cumulativeReturn (Num 10));
               positiveReturns = length (filter (\<lambda>r. dgt r (Num 0)) rs);
               consistency =
                 dmul (dabs (dsub (ddiv (of_size positiveReturns) (of_size (length rs)))
                                  (Num (1 / 2))))
                      (Num 2)
           in (s1\<lparr>mo_lastUpdateTime := timestampNs d\<rparr>,
               Some \<lparr>sig_alphaId = mo_alphaId s, sig_symbol = symbol d,
                     signal = sgn, confidence = consistency,
                     sig_timestampNs = timestampNs d\<rparr>))"

fun mo_feed ::
  "MomentumAlpha \<Rightarrow> MarketData list \<Rightarrow> MomentumAlpha \<times> AlphaSignal option list" where
  "mo_feed s [] = (s, [])"
| "mo_feed s (d # ds) =
     (let (s1, out) = mo_onMarketData s d;
          (s2, outs) = mo_feed s1 ds
      in (s2, out # outs))"

text \<open>A tick of the symbol AAPL with the given last price and timestamp.\<close>

definition tick :: "real \<Rightarrow> int \<Rightarrow> MarketData" where
  "tick p t = \<lparr>symbol = ''AAPL'', price = Num p, volume = 0, timestampNs = t\<rparr>"


section \<open>Signal aggregator (signal\_aggregator.hpp, signal\_aggregator.cpp)\<close>

text \<open>The aggregator's AlphaSignal has the fields of the alpha engine's, so the record
  above serves both.\<close>

record TargetPosition =
  tp_symbol :: string
  targetQuantity :: double
  currentQuantity :: double
  tp_timestampNs :: int

definition MIN_CONFIDENCE_THRESHOLD :: double where
  "MIN_CONFIDENCE_THRESHOLD = Num (3 / 10)"

definition MAX_SIGNALS_PER_SYMBOL :: int where
  "MAX_SIGNALS_PER_SYMBOL = 1000"

definition WeightedAverage_aggregate :: "AlphaSignal list \<Rightarrow> double" where
  "WeightedAverage_aggregate signals =
     (if signals = [] then Num 0
      else
        let filtered = filter (\<lambda>sg. dge (confidence sg) MIN_CONFIDENCE_THRESHOLD) signals
        in if filtered = [] then Num 0
           else
             let weightedSum =
                   foldl (\<lambda>sum sg. dadd sum (dmul (signal sg) (confidence sg))) (Num 0) filtered;
                 totalWeight = foldl (\<lambda>sum sg. dadd sum (confidence sg)) (Num 0) filtered
             in ddiv weightedSum totalWeight)"

text \<open>\<^verbatim>\<open>std::sort\<close> with the comparator \<^verbatim>\<open>a < b\<close>. On values without NaN the result is the
  ascending arrangement of the input, which insertion computes; with a NaN the comparator
  is no strict weak order and the C++ call has no defined result.\<close>

fun sort_insert :: "double \<Rightarrow> double list \<Rightarrow> double list" where
  "sort_insert v [] = [v]"
| "sort_insert v (w # ws) = (if dless w v then w # sort_insert v ws else v # w # ws)"

definition std_sort :: "double list \<Rightarrow> double list" where
  "std_sort vs = foldr sort_insert vs []"

text \<open>The middle of a sorted non-empty vector, as the last lines of both median
  computations take it.\<close>

definition middle :: "double list \<Rightarrow> double" where
  "middle vs =
     (let mid = length vs div 2
      in if length vs mod 2 = 0 then ddiv (dadd (vs ! (mid - 1)) (vs ! mid)) (Num 2)
         else vs ! mid)"

text \<open>\<^verbatim>\<open>std::remove(values.begin(), values.end(), 0.0)\<close> drops every element that compares
  equal to \<open>0.0\<close>.\<close>

definition Median_aggregate :: "AlphaSignal list \<Rightarrow> double" where
  "Median_aggregate signals =
     (if signals = [] then Num 0
      else
        let values0 = map (\<lambda>sg. if dge (confidence sg) MIN_CONFIDENCE_THRESHOLD
                                  then signal sg else Num 0) signals;
            values1 = filter (\<lambda>v. \<not> deq v (Num 0)) values0
        in if values1 = [] then Num 0
           else middle (std_sort values1))"

datatype IAggregationStrategy = WeightedAverageAggregation | MedianAggregation

fun aggregate :: "IAggregationStrategy \<Rightarrow> AlphaSignal list \<Rightarrow> double" where
  "aggregate WeightedAverageAggregation signals = WeightedAverage_aggregate signals"
| "aggregate MedianAggregation signals = Median_aggregate signals"

text \<open>\<^verbatim>\<open>signalsBySymbol_\<close> is an \<^verbatim>\<open>unordered_map\<close> from symbol to the vector of its signals:
  an association list with one entry per key. The order in which C++ iterates over the map
  is unspecified; the list fixes one (keys in order of first insertion).\<close>

record SignalAggregator =
  strategy :: IAggregationStrategy
  signalsBySymbol :: "(string \<times> AlphaSignal list) list"

definition SignalAggregator_new :: "IAggregationStrategy \<Rightarrow> SignalAggregator" where
  "SignalAggregator_new st = \<lparr>strategy = st, signalsBySymbol = []\<rparr>"

text \<open>\<^verbatim>\<open>signalsBySymbol_[signal.symbol]\<close> creates an empty vector for a new symbol.\<close>

definition addSignal :: "SignalAggregator \<Rightarrow> AlphaSignal \<Rightarrow> SignalAggregator" where
  "addSignal agg sg =
     (let old = (case map_of (signalsBySymbol agg) (sig_symbol sg) of
                   None \<Rightarrow> [] | Some v \<Rightarrow> v);
          signals1 = old @ [sg];
          signals2 = (if size_t_of_int MAX_SIGNALS_PER_SYMBOL < length signals1
                      then tl signals1 else signals1)
      in agg\<lparr>signalsBySymbol := AList.update (sig_symbol sg) signals2 (signalsBySymbol agg)\<rparr>)"

text \<open>The clock is read once for every entry; \<open>clock i\<close> is the reading for the entry at
  index \<open>i\<close>.\<close>

definition generateTargetPortfolio ::
  "(nat \<Rightarrow> int) \<Rightarrow> SignalAggregator \<Rightarrow> TargetPosition list" where
  "generateTargetPortfolio clock agg =
     map (\<lambda>(i, pair).
            \<lparr>tp_symbol = fst pair,
             targetQuantity = dmul (aggregate (strategy agg) (snd pair)) (Num 1000),
             currentQuantity = Num 0,
             tp_timestampNs = clock i\<rparr>)
         (enumerate 0 (signalsBySymbol agg))"

definition getAggregatedSignal :: "SignalAggregator \<Rightarrow> string \<Rightarrow> double option" where
  "getAggregatedSignal agg symb =
     (case map_of (signalsBySymbol agg) symb of
        None \<Rightarrow> None
      | Some signals \<Rightarrow> if signals = [] then None else Some (aggregate (strategy agg) signals))"

definition clearSignalsOlderThan :: "SignalAggregator \<Rightarrow> int \<Rightarrow> SignalAggregator" where
  "clearSignalsOlderThan agg ts =
     agg\<lparr>signalsBySymbol :=
           map (\<lambda>pair. (fst pair, filter (\<lambda>sg. \<not> sig_timestampNs sg < ts) (snd pair)))
               (signalsBySymbol agg)\<rparr>"

text \<open>The policy of the specification for the median: filter as the weighted average does
  (keep the signals with confidence at least the threshold), sort the kept values, return
  the middle element, averaging the two middle ones for an even count; empty gives 0.\<close>

definition Median_spec :: "AlphaSignal list \<Rightarrow> double" where
  "Median_spec signals =
     (let kept = filter (\<lambda>sg. dge (confidence sg) MIN_CONFIDENCE_THRESHOLD) signals
      in if kept = [] then Num 0 else middle (std_sort (map signal kept)))"


section \<open>Risk checks (risk\_checks.hpp, risk\_checks.cpp)\<close>

datatype OrderSide = BUY | SELL

datatype ViolationType = FAT_FINGER | DRAWDOWN | CONCENTRATION | POSITION_LIMIT | NONE

record Order =
  orderId :: string
  ord_symbol :: string
  quantity :: double
  side :: OrderSide
  ord_price :: double
  ord_timestampNs :: int

record Position =
  pos_symbol :: string
  pos_quantity :: double
  avgCost :: double
  unrealizedPnL :: double
  realizedPnL :: double

text \<open>\<^verbatim>\<open>Position()\<close>: an empty symbol and four zeros.\<close>

definition Position_new :: Position where
  "Position_new = \<lparr>pos_symbol = [], pos_quantity = Num 0, avgCost = Num 0,
                   unrealizedPnL = Num 0, realizedPnL = Num 0\<rparr>"

record FatFingerCheck =
  ff_enabled :: bool
  maxAdvPercentage :: double
  advMap :: "string \<rightharpoonup> double"

record DrawdownCheck =
  dd_enabled :: bool
  maxDrawdownPercentage :: double
  startOfDayNAV :: double
  currentPnL :: double

record ConcentrationCheck =
  cc_enabled :: bool
  maxConcentrationPercentage :: double
  positionValues :: "string \<rightharpoonup> double"
  totalNAV :: double

text \<open>
  \<^verbatim>\<open>validate(order, reason)\<close> returns the verdict and writes the reason only when it
  rejects: the model takes the caller's string and returns the verdict with the string as
  the call leaves it. \<^verbatim>\<open>std::to_string\<close> on doubles is the parameter \<open>ts\<close>.
\<close>

definition FatFingerCheck_validate ::
  "(double \<Rightarrow> string) \<Rightarrow> FatFingerCheck \<Rightarrow> Order \<Rightarrow> string \<Rightarrow> bool \<times> string" where
  "FatFingerCheck_validate ts c order reason =
     (case advMap c (ord_symbol order) of
        None \<Rightarrow> (True, reason)
      | Some adv \<Rightarrow>
          let maxAllowedQty = dmul adv (maxAdvPercentage c)
          in if dgt (dabs (quantity order)) maxAllowedQty
             then (False, ''Order quantity '' @ ts (quantity order) @ '' exceeds '' @
                          ts (dmul (maxAdvPercentage c) (Num 100)) @ ''% of ADV ('' @
                          ts maxAllowedQty @ '')'')
             else (True, reason))"

definition DrawdownCheck_validate ::
  "(double \<Rightarrow> string) \<Rightarrow> DrawdownCheck \<Rightarrow> Order \<Rightarrow> string \<Rightarrow> bool \<times> string" where
  "DrawdownCheck_validate ts c order reason =
     (if dle (startOfDayNAV c) (Num 0) then (True, reason)
      else
        let currentDrawdown = ddiv (dneg (currentPnL c)) (startOfDayNAV c)
        in if dgt currentDrawdown (maxDrawdownPercentage c)
           then (if side order = BUY
                 then (False, ''Strategy is in '' @ ts (dmul currentDrawdown (Num 100)) @
                              ''% drawdown, exceeds limit of '' @
                              ts (dmul (maxDrawdownPercentage c) (Num 100)) @ ''%'')
                 else (True, reason))
           else (True, reason))"

definition ConcentrationCheck_validate ::
  "(double \<Rightarrow> string) \<Rightarrow> ConcentrationCheck \<Rightarrow> Order \<Rightarrow> string \<Rightarrow> bool \<times> string" where
  "ConcentrationCheck_validate ts c order reason =
     (if dle (totalNAV c) (Num 0) then (True, reason)
      else
        let currentValue = (case positionValues c (ord_symbol order) of
                              None \<Rightarrow> Num 0 | Some v \<Rightarrow> v);
            newValue = dadd currentValue (dmul (quantity order) (ord_price order));
            concentration = ddiv (dabs newValue) (totalNAV c)
        in if dgt concentration (maxConcentrationPercentage c)
           then (False, ''Order would result in '' @ ts (dmul concentration (Num 100)) @
                        ''% concentration in '' @ ord_symbol order @
                        '', exceeds limit of '' @
                        ts (dmul (maxConcentrationPercentage c) (Num 100)) @ ''%'')
           else (True, reason))"

datatype IRiskCheck =
  FatFinger FatFingerCheck | Drawdown DrawdownCheck | Concentration ConcentrationCheck

fun isEnabled :: "IRiskCheck \<Rightarrow> bool" where
  "isEnabled (FatFinger c) = ff_enabled c"
| "isEnabled (Drawdown c) = dd_enabled c"
| "isEnabled (Concentration c) = cc_enabled c"

fun validate :: "(double \<Rightarrow> string) \<Rightarrow> IRiskCheck \<Rightarrow> Order \<Rightarrow> string \<Rightarrow> bool \<times> string" where
  "validate ts (FatFinger c) order reason = FatFingerCheck_validate ts c order reason"
| "validate ts (Drawdown c) order reason = DrawdownCheck_validate ts c order reason"
| "validate ts (Concentration c) order reason = ConcentrationCheck_validate ts c order reason"

record RiskCheckResult =
  approved :: bool
  violations :: "ViolationType list"
  reason :: string

definition RiskCheckResult_new :: RiskCheckResult where
  "RiskCheckResult_new = \<lparr>approved = True, violations = [], reason = []\<rparr>"

definition addViolation :: "RiskCheckResult \<Rightarrow> ViolationType \<Rightarrow> string \<Rightarrow> RiskCheckResult" where
  "addViolation r type msg =
     r\<lparr>approved := False,
       violations := violations r @ [type],
       reason := (if reason r \<noteq> [] then reason r @ ''; '' else reason r) @ msg\<rparr>"

text \<open>The loop of \<^verbatim>\<open>validateAll\<close>: the result and the local string \<^verbatim>\<open>reason\<close> are carried
  from one check to the next.\<close>

fun validateAll_loop ::
  "(double \<Rightarrow> string) \<Rightarrow> IRiskCheck list \<Rightarrow> Order \<Rightarrow> RiskCheckResult \<Rightarrow> string
     \<Rightarrow> RiskCheckResult" where
  "validateAll_loop ts [] order result rsn = result"
| "validateAll_loop ts (check # checks) order result rsn =
     (if \<not> isEnabled check then validateAll_loop ts checks order result rsn
      else
        let (ok, rsn1) = validate ts check order rsn
        in if \<not> ok then validateAll_loop ts checks order (addViolation result NONE rsn1) rsn1
           else validateAll_loop ts checks order result rsn1)"

definition validateAll :: "(double \<Rightarrow> string) \<Rightarrow> IRiskCheck list \<Rightarrow> Order \<Rightarrow> RiskCheckResult" where
  "validateAll ts checks order = validateAll_loop ts checks order RiskCheckResult_new []"


section \<open>Position manager (risk\_guardian.hpp, risk\_guardian.cpp)\<close>

text \<open>\<^verbatim>\<open>positions_\<close> maps a symbol to a Position of its own (each entry is created by
  \<^verbatim>\<open>make_shared\<close> in \<^verbatim>\<open>getPosition\<close>), so the positions of two symbols never alias.\<close>

type_synonym PositionManager = "string \<rightharpoonup> Position"

definition getPosition :: "PositionManager \<Rightarrow> string \<Rightarrow> PositionManager \<times> Position" where
  "getPosition pm symb =
     (case pm symb of
        None \<Rightarrow> (let position = Position_new\<lparr>pos_symbol := symb\<rparr>
                 in (pm(symb \<mapsto> position), position))
      | Some position \<Rightarrow> (pm, position))"

definition updatePosition ::
  "PositionManager \<Rightarrow> string \<Rightarrow> double \<Rightarrow> double \<Rightarrow> PositionManager" where
  "updatePosition pm symb qty prc =
     (let (pm1, position) = getPosition pm symb;
          oldQty = pos_quantity position;
          newQty = dadd oldQty qty;
          position1 =
            (if \<not> deq newQty (Num 0)
             then position\<lparr>avgCost :=
                    ddiv (dadd (dmul oldQty (avgCost position)) (dmul qty prc)) newQty\<rparr>
             else position\<lparr>avgCost := Num 0\<rparr>)
      in pm1(symb \<mapsto> position1\<lparr>pos_quantity := newQty\<rparr>))"

text \<open>The states of a position manager: it starts empty, and \<^verbatim>\<open>getPosition\<close> and
  \<^verbatim>\<open>updatePosition\<close> are its only operations that write.\<close>

inductive pm_reachable :: "PositionManager \<Rightarrow> bool" where
  pm_empty: "pm_reachable Map.empty"
| pm_get: "pm_reachable pm \<Longrightarrow> pm_reachable (fst (getPosition pm symb))"
| pm_update: "pm_reachable pm \<Longrightarrow> pm_reachable (updatePosition pm symb qty prc)"


section \<open>Packet normalizer (data\_types.hpp, data\_types.cpp)\<close>

type_synonym byte = "8 word"

datatype AssetType = EQUITY | FUTURE | OPTION | UNKNOWN_ASSET

datatype Exchange = NYSE | NASDAQ | CME | UNKNOWN_EXCHANGE

text \<open>The MarketData of the feed handler. The symbol is the C string read from the frame,
  kept as its bytes.\<close>

record FeedData =
  fd_symbol :: "byte list"
  bidPrice :: double
  askPrice :: double
  lastPrice :: double
  bidSize :: "64 word"
  askSize :: "64 word"
  fd_volume :: "64 word"
  fd_timestampNs :: "64 word"
  assetType :: AssetType
  exchange :: Exchange

definition midPrice :: "FeedData \<Rightarrow> double" where
  "midPrice d = ddiv (dadd (bidPrice d) (askPrice d)) (Num 2)"

definition spread :: "FeedData \<Rightarrow> double" where
  "spread d = dsub (askPrice d) (bidPrice d)"

text \<open>\<^verbatim>\<open>parseField<T>\<close> copies \<^verbatim>\<open>sizeof(T)\<close> bytes from the offset into a value of type T.
  The platform is little-endian and its double is IEEE 754 binary64: one sign bit, eleven
  exponent bits, 52 fraction bits.\<close>

definition le_nat :: "byte list \<Rightarrow> nat" where
  "le_nat bs = foldr (\<lambda>b acc. unat b + 256 * acc) bs 0"

definition double_of_bits :: "nat \<Rightarrow> double" where
  "double_of_bits n =
     (let s = (n div 2 ^ 63) mod 2;
          e = (n div 2 ^ 52) mod 2 ^ 11;
          f = n mod 2 ^ 52;
          sgn = (if s = 1 then - 1 else (1::real))
      in if e = 2047 then (if f = 0 then (if s = 1 then NegInf else PosInf) else NaN)
         else if e = 0 then Num (sgn * real f / 2 ^ 1074)
         else if 1075 \<le> e then Num (sgn * real (2 ^ 52 + f) * 2 ^ (e - 1075))
         else Num (sgn * real (2 ^ 52 + f) / 2 ^ (1075 - e)))"

definition parseField_double :: "byte list \<Rightarrow> nat \<Rightarrow> double" where
  "parseField_double rawData offset = double_of_bits (le_nat (take 8 (drop offset rawData)))"

definition parseField_int64 :: "byte list \<Rightarrow> nat \<Rightarrow> 64 word" where
  "parseField_int64 rawData offset = word_of_nat (le_nat (take 8 (drop offset rawData)))"

definition DataNormalizer_validate :: "FeedData \<Rightarrow> bool" where
  "DataNormalizer_validate d =
     (dgt (bidPrice d) (Num 0) \<and> dgt (askPrice d) (Num 0) \<and> dge (askPrice d) (bidPrice d))"

definition NYSENormalizer_validate :: "FeedData \<Rightarrow> bool" where
  "NYSENormalizer_validate d =
     (if \<not> DataNormalizer_validate d then False
      else if dgt (spread d) (dmul (midPrice d) (Num (1 / 10))) then False
      else True)"

text \<open>The fields of an NYSE frame as \<^verbatim>\<open>normalize\<close> reads them, before validation. The symbol
  is at most 15 bytes from offset 56, cut at the first NUL.\<close>

definition NYSE_parse :: "byte list \<Rightarrow> nat \<Rightarrow> FeedData" where
  "NYSE_parse rawData len =
     \<lparr>fd_symbol = takeWhile (\<lambda>b. b \<noteq> 0) (take (min (len - 56) 15) (drop 56 rawData)),
      bidPrice = parseField_double rawData 0,
      askPrice = parseField_double rawData 8,
      lastPrice = parseField_double rawData 16,
      bidSize = parseField_int64 rawData 24,
      askSize = parseField_int64 rawData 32,
      fd_volume = parseField_int64 rawData 40,
      fd_timestampNs = parseField_int64 rawData 48,
      assetType = EQUITY,
      exchange = NYSE\<rparr>"

text \<open>\<open>rawData\<close> is the receive buffer and \<open>len\<close> the length passed with it; the caller
  owes \<open>len \<le> length rawData\<close>.\<close>

definition NYSENormalizer_normalize :: "byte list \<Rightarrow> nat \<Rightarrow> FeedData option" where
  "NYSENormalizer_normalize rawData len =
     (if len < 64 then None
      else
        let data = NYSE_parse rawData len
        in if \<not> NYSENormalizer_validate data then None else Some data)"


section \<open>Inputs of the scenarios and auxiliary predicates\<close>

text \<open>A signal for AAPL with the given value, confidence and timestamp.\<close>

definition mk_signal :: "real \<Rightarrow> real \<Rightarrow> int \<Rightarrow> AlphaSignal" where
  "mk_signal v c t = \<lparr>sig_alphaId = ''alpha'', sig_symbol = ''AAPL'', signal = Num v,
                      confidence = Num c, sig_timestampNs = t\<rparr>"

text \<open>The three checks as the scenarios of the specification configure them: an average
  daily volume of 1 000 000 for AAPL with a cap of 5 percent, a net asset value of 1 000 000 with
  a loss of 60 000 and a drawdown limit of 5 percent, and a net asset value of 1 000 000 with no
  position and a concentration limit of 10 percent.\<close>

definition scenario_fat_finger :: FatFingerCheck where
  "scenario_fat_finger =
     \<lparr>ff_enabled = True, maxAdvPercentage = Num (5 / 100),
      advMap = [''AAPL'' \<mapsto> Num 1000000]\<rparr>"

definition scenario_drawdown :: DrawdownCheck where
  "scenario_drawdown =
     \<lparr>dd_enabled = True, maxDrawdownPercentage = Num (5 / 100),
      startOfDayNAV = Num 1000000, currentPnL = Num (- 60000)\<rparr>"

definition scenario_concentration :: ConcentrationCheck where
  "scenario_concentration =
     \<lparr>cc_enabled = True, maxConcentrationPercentage = Num (1 / 10),
      positionValues = Map.empty, totalNAV = Num 1000000\<rparr>"

definition mk_order :: "real \<Rightarrow> OrderSide \<Rightarrow> real \<Rightarrow> Order" where
  "mk_order q sd p = \<lparr>orderId = ''Order_0'', ord_symbol = ''AAPL'', quantity = Num q,
                      side = sd, ord_price = Num p, ord_timestampNs = 0\<rparr>"

text \<open>An enabled check that rejects the order. The verdict of a check does not depend on
  the string it is handed (lemma \<open>validate_verdict_indep\<close> below).\<close>

definition fails :: "(double \<Rightarrow> string) \<Rightarrow> Order \<Rightarrow> IRiskCheck \<Rightarrow> bool" where
  "fails ts order c = (isEnabled c \<and> \<not> fst (validate ts c order []))"

text \<open>Every position is filed under its own symbol and has both PnL fields at 0.\<close>

definition pm_inv :: "PositionManager \<Rightarrow> bool" where
  "pm_inv pm = (\<forall>s pos. pm s = Some pos \<longrightarrow>
                  pos_symbol pos = s \<and> unrealizedPnL pos = Num 0 \<and> realizedPnL pos = Num 0)"

text \<open>An NYSE frame of 64 bytes with the given encodings of bid and ask; every other byte
  is 0. The little-endian encodings of \<open>+\<infinity>\<close> (\<open>0x7FF0000000000000\<close>) and of \<open>1.0\<close>
  (\<open>0x3FF0000000000000\<close>).\<close>

definition nyse_frame :: "byte list \<Rightarrow> byte list \<Rightarrow> byte list" where
  "nyse_frame bid ask = bid @ ask @ replicate 48 0"

definition bytes_inf :: "byte list" where
  "bytes_inf = [0, 0, 0, 0, 0, 0, 0xF0, 0x7F]"

definition bytes_one :: "byte list" where
  "bytes_one = [0, 0, 0, 0, 0, 0, 0xF0, 0x3F]"


section \<open>Auxiliary facts\<close>

lemma size_t_of_int_small: "0 \<le> i \<Longrightarrow> i < 2 ^ 64 \<Longrightarrow> size_t_of_int i = nat i"
  by (simp add: size_t_of_int_def)

lemma size_t_1: "size_t_of_int 1 = 1"
  by (simp add: size_t_of_int_def)

lemma size_t_3: "size_t_of_int 3 = 3"
  by (simp add: size_t_of_int_def)

lemma dle_Num: "dle (Num a) (Num b) = (a \<le> b)"
  by (auto simp: dle_def deq_def)

lemma sqrt2_bounds: "1414 / 1000 < sqrt 2" "sqrt 2 < 1415 / 1000"
proof -
  show "1414 / 1000 < sqrt 2" by (rule real_less_rsqrt) (simp add: power2_eq_square)
  show "sqrt 2 < 1415 / 1000" by (rule real_less_lsqrt) (simp_all add: power2_eq_square)
qed

lemma sqrt2_cmp: "1 < sqrt 2" "sqrt 2 < 3" "\<not> sqrt 2 < 1 / 10 ^ 6"
  using sqrt2_bounds by simp_all


section \<open>Mean reversion: the scenario with window 3\<close>

lemma mean_10_10_10: "calculateMean [Num 10, Num 10, Num 10] = Num 10"
  by (simp add: calculateMean_def of_size_def)

lemma stddev_10_10_10: "calculateStdDev [Num 10, Num 10, Num 10] = Num 0"
  by (simp add: calculateStdDev_def calculateMean_def of_size_def dsub_def)

lemma mean_10_10_13: "calculateMean [Num 10, Num 10, Num 13] = Num 11"
  by (simp add: calculateMean_def of_size_def)

lemma stddev_10_10_13: "calculateStdDev [Num 10, Num 10, Num 13] = Num (sqrt 2)"
  by (simp add: calculateStdDev_def calculateMean_def of_size_def dsub_def)

text \<open>The whole run: the final state and the four outputs. On the third tick the window
  is full but its deviation is 0, below \<open>1e-6\<close>; on the fourth tick the oldest price has
  been evicted and the window is 10, 10, 13.\<close>

lemma mr_scenario_run:
  "mr_feed (mr_initialize (MeanReversionAlpha_new ''mr'' 3))
           [tick 10 1, tick 10 2, tick 10 3, tick 13 4]
   = (\<lparr>mr_alphaId = ''mr'', windowSize = 3, priceHistory = [Num 10, Num 10, Num 13],
       mr_initialized = True, mr_lastUpdateTime = 4\<rparr>,
      [None, None, None,
       Some \<lparr>sig_alphaId = ''mr'', sig_symbol = ''AAPL'', signal = Num (- 1),
             confidence = Num (sqrt 2 / 3), sig_timestampNs = 4\<rparr>])"
  using sqrt2_cmp
  by (simp add: mr_initialize_def MeanReversionAlpha_new_def tick_def mr_onMarketData_def
      size_t_3 mean_10_10_10 stddev_10_10_10 mean_10_10_13 stddev_10_10_13 Let_def dsub_def
      std_min_def std_max_def MIN_SIGNAL_def MAX_SIGNAL_def real_div_sqrt)

text \<open>
  C1, as the code computes it. MeanReversion with window 3, initialized and fed the prices
  10, 10, 10, 13: the first three ticks emit nothing. The fourth tick is appended before
  the statistics are taken and the oldest price is evicted, so the window is 10, 10, 13:
  its mean is 11 (not 10), its population deviation is the square root of 2 (about 1.414),
  the z-score is (13 - 11) / sqrt 2 = sqrt 2 (about 1.414, not 2.121), the signal is
  clamp(-1.414) = -1 and the confidence is sqrt 2 / 3 (about 0.471, not 0.707).
\<close>

theorem mean_reversion_scenario:
  "snd (mr_feed (mr_initialize (MeanReversionAlpha_new ''mr'' 3))
                [tick 10 1, tick 10 2, tick 10 3, tick 13 4])
     = [None, None, None,
        Some \<lparr>sig_alphaId = ''mr'', sig_symbol = ''AAPL'', signal = Num (- 1),
              confidence = Num (sqrt 2 / 3), sig_timestampNs = 4\<rparr>]
   \<and> priceHistory (fst (mr_feed (mr_initialize (MeanReversionAlpha_new ''mr'' 3))
                                  [tick 10 1, tick 10 2, tick 10 3, tick 13 4]))
     = [Num 10, Num 10, Num 13]
   \<and> calculateMean [Num 10, Num 10, Num 13] = Num 11
   \<and> calculateStdDev [Num 10, Num 10, Num 13] = Num (sqrt 2)
   \<and> ddiv (dsub (Num 13) (Num 11)) (Num (sqrt 2)) = Num (sqrt 2)
   \<and> 1414 / 1000 < sqrt 2 \<and> sqrt 2 < 1415 / 1000
   \<and> 471 / 1000 < sqrt 2 / 3 \<and> sqrt 2 / 3 < 472 / 1000"
  unfolding mr_scenario_run using sqrt2_bounds
  by (simp add: mean_10_10_13 stddev_10_10_13 dsub_def real_div_sqrt)

text \<open>C1 as the specification states it fails: at the fourth tick the mean of the window
  is not 10, and the confidence of the emitted signal is not within 0.01 of 0.707.\<close>

theorem mean_reversion_scenario_counterexample:
  "calculateMean (priceHistory (fst (mr_feed (mr_initialize (MeanReversionAlpha_new ''mr'' 3))
                                           [tick 10 1, tick 10 2, tick 10 3, tick 13 4])))
     \<noteq> Num 10
   \<and> map_option confidence
        (snd (mr_feed (mr_initialize (MeanReversionAlpha_new ''mr'' 3))
                      [tick 10 1, tick 10 2, tick 10 3, tick 13 4]) ! 3)
     = Some (Num (sqrt 2 / 3))
   \<and> \<not> \<bar>sqrt 2 / 3 - 707 / 1000\<bar> \<le> 1 / 100"
  unfolding mr_scenario_run using sqrt2_bounds
  by (simp add: mean_10_10_13)


section \<open>Median aggregation\<close>

text \<open>The code marks a signal below the threshold by the value 0 and then erases every 0.
  When no kept signal has the value 0 this is the filter of the specification.\<close>

lemma median_values_filter:
  assumes "\<forall>sg \<in> set signals.
             dge (confidence sg) MIN_CONFIDENCE_THRESHOLD \<longrightarrow> \<not> deq (signal sg) (Num 0)"
  shows "filter (\<lambda>v. \<not> deq v (Num 0))
           (map (\<lambda>sg. if dge (confidence sg) MIN_CONFIDENCE_THRESHOLD
                       then signal sg else Num 0) signals)
         = map signal (filter (\<lambda>sg. dge (confidence sg) MIN_CONFIDENCE_THRESHOLD) signals)"
  using assms by (induction signals) (auto simp: deq_def)

lemma Median_aggregate_eq_spec:
  assumes "\<forall>sg \<in> set signals.
             dge (confidence sg) MIN_CONFIDENCE_THRESHOLD \<longrightarrow> \<not> deq (signal sg) (Num 0)"
  shows "Median_aggregate signals = Median_spec signals"
  using median_values_filter[OF assms]
  by (auto simp: Median_aggregate_def Median_spec_def Let_def)

text \<open>
  C2. The median policy is to keep exactly the signals with confidence at least 0.3,
  a kept signal of value 0.0 included, and to return the middle of the sorted kept values.
  The code loses a kept signal whose value is 0.0: for the three signals 0.0, 0.5 and 1.0,
  each with confidence 0.9, the median of the kept values is 0.5, and
  \<^verbatim>\<open>MedianAggregation::aggregate\<close> returns 0.75, the mean of 0.5 and 1.0.
\<close>

theorem median_drops_zero_signal:
  "Median_aggregate [mk_signal 0 (9 / 10) 1, mk_signal (1 / 2) (9 / 10) 2, mk_signal 1 (9 / 10) 3]
     = Num (3 / 4)
   \<and> Median_spec [mk_signal 0 (9 / 10) 1, mk_signal (1 / 2) (9 / 10) 2, mk_signal 1 (9 / 10) 3]
     = Num (1 / 2)"
  by (simp add: Median_aggregate_def Median_spec_def mk_signal_def MIN_CONFIDENCE_THRESHOLD_def
      dge_def dle_def deq_def std_sort_def middle_def Let_def)


section \<open>Target portfolio\<close>

lemma map_enumerate_snd: "map (\<lambda>(i, x). f x) (enumerate n xs) = map f xs"
  by (induction xs arbitrary: n) simp_all

lemma portfolio_symbols:
  "map tp_symbol (generateTargetPortfolio clock agg) = map fst (signalsBySymbol agg)"
  using map_enumerate_snd[of fst 0 "signalsBySymbol agg"]
  by (simp add: generateTargetPortfolio_def split_def comp_def)

lemma portfolio_targets:
  "map targetQuantity (generateTargetPortfolio clock agg)
   = map (\<lambda>pair. dmul (aggregate (strategy agg) (snd pair)) (Num 1000)) (signalsBySymbol agg)"
  using map_enumerate_snd[of "\<lambda>pair. dmul (aggregate (strategy agg) (snd pair)) (Num 1000)"
                             0 "signalsBySymbol agg"]
  by (simp add: generateTargetPortfolio_def split_def comp_def)

lemma portfolio_currents:
  "map currentQuantity (generateTargetPortfolio clock agg)
   = map (\<lambda>pair. Num 0) (signalsBySymbol agg)"
  using map_enumerate_snd[of "\<lambda>pair. Num 0" 0 "signalsBySymbol agg"]
  by (simp add: generateTargetPortfolio_def split_def comp_def)

lemma aggregate_empty: "aggregate st [] = Num 0"
  by (cases st) (simp_all add: WeightedAverage_aggregate_def Median_aggregate_def)

text \<open>The keys of the map stay distinct, and eviction by age removes no key.\<close>

lemma addSignal_distinct:
  "distinct (map fst (signalsBySymbol agg))
   \<Longrightarrow> distinct (map fst (signalsBySymbol (addSignal agg sg)))"
  by (simp add: addSignal_def Let_def distinct_update)

lemma clearSignalsOlderThan_keys:
  "map fst (signalsBySymbol (clearSignalsOlderThan agg ts)) = map fst (signalsBySymbol agg)"
  by (simp add: clearSignalsOlderThan_def comp_def)

text \<open>
  What \<^verbatim>\<open>generateTargetPortfolio\<close> computes: one TargetPosition for every entry of the
  per-symbol map, in the order of the map, whether the buffer of the entry is empty or not.
  Its symbol is the key, its target quantity is the aggregate of the buffer times 1000 and
  its current quantity is 0; for an empty buffer the aggregate is 0.
\<close>

lemma target_portfolio_entries:
  "map tp_symbol (generateTargetPortfolio clock agg) = map fst (signalsBySymbol agg)
   \<and> map targetQuantity (generateTargetPortfolio clock agg)
     = map (\<lambda>pair. dmul (aggregate (strategy agg) (snd pair)) (Num 1000)) (signalsBySymbol agg)
   \<and> map currentQuantity (generateTargetPortfolio clock agg)
     = replicate (length (signalsBySymbol agg)) (Num 0)
   \<and> dmul (aggregate (strategy agg) []) (Num 1000) = Num 0"
  by (simp add: portfolio_symbols portfolio_targets portfolio_currents aggregate_empty
      map_replicate_const)

text \<open>
  C3. The portfolio is to have an entry exactly for the symbols whose buffer is not empty;
  a symbol whose signals have all been evicted is to contribute none.
  \<^verbatim>\<open>getAggregatedSignal\<close> treats an empty buffer as absent, but \<^verbatim>\<open>generateTargetPortfolio\<close>
  lacks that guard and \<^verbatim>\<open>clearSignalsOlderThan\<close> never erases a key: after one signal for
  AAPL with timestamp 5 has been added and every signal older than 6 has been cleared, the
  buffer of AAPL is empty, the aggregated signal of AAPL is none, and the portfolio still
  has an entry for AAPL, with target quantity 0.
\<close>

theorem target_portfolio_empty_buffer:
  "signalsBySymbol
     (clearSignalsOlderThan
        (addSignal (SignalAggregator_new WeightedAverageAggregation)
                   (mk_signal (1 / 2) (9 / 10) 5)) 6)
     = [(''AAPL'', [])]
   \<and> getAggregatedSignal
       (clearSignalsOlderThan
          (addSignal (SignalAggregator_new WeightedAverageAggregation)
                     (mk_signal (1 / 2) (9 / 10) 5)) 6) ''AAPL''
     = None
   \<and> generateTargetPortfolio (\<lambda>i. 7)
       (clearSignalsOlderThan
          (addSignal (SignalAggregator_new WeightedAverageAggregation)
                     (mk_signal (1 / 2) (9 / 10) 5)) 6)
     = [\<lparr>tp_symbol = ''AAPL'', targetQuantity = Num 0, currentQuantity = Num 0,
         tp_timestampNs = 7\<rparr>]"
  by (simp add: generateTargetPortfolio_def clearSignalsOlderThan_def addSignal_def
      SignalAggregator_new_def getAggregatedSignal_def mk_signal_def size_t_of_int_def
      MAX_SIGNALS_PER_SYMBOL_def WeightedAverage_aggregate_def Let_def)


section \<open>Risk battery\<close>

text \<open>A check reads the string it is handed only to return it unchanged when it accepts:
  the verdict never depends on it, and a rejection overwrites it.\<close>

lemma validate_verdict_indep: "fst (validate ts c order r1) = fst (validate ts c order r2)"
  by (cases c)
     (auto simp: FatFingerCheck_validate_def DrawdownCheck_validate_def
        ConcentrationCheck_validate_def Let_def split: option.splits)

lemma validate_message_indep:
  "\<not> fst (validate ts c order r1)
   \<Longrightarrow> snd (validate ts c order r1) = snd (validate ts c order r2)"
  by (cases c)
     (auto simp: FatFingerCheck_validate_def DrawdownCheck_validate_def
        ConcentrationCheck_validate_def Let_def split: option.splits if_splits)

lemma fails_now:
  "fails ts order c \<Longrightarrow> isEnabled c \<and> \<not> fst (validate ts c order rsn)"
  using validate_verdict_indep[of ts c order rsn "[]"] by (simp add: fails_def)

lemma passes_now:
  "\<not> fails ts order c \<Longrightarrow> \<not> isEnabled c \<or> fst (validate ts c order rsn)"
  using validate_verdict_indep[of ts c order rsn "[]"] by (simp add: fails_def)

text \<open>The result of the battery: it is approved exactly when no enabled check rejects, it
  has one tag for every rejecting check, every tag is \<open>NONE\<close>, and its reason is the messages
  of the rejecting checks in order, separated by a semicolon and a blank.\<close>

lemma loop_approved:
  "approved (validateAll_loop ts checks order r rsn)
   = (approved r \<and> filter (fails ts order) checks = [])"
proof (induction checks arbitrary: r rsn)
  case Nil
  then show ?case by simp
next
  case (Cons c cs)
  show ?case
  proof (cases "fails ts order c")
    case True
    with fails_now[OF True, of rsn] Cons.IH show ?thesis
      by (simp add: split_def Let_def addViolation_def)
  next
    case False
    with passes_now[OF False, of rsn] Cons.IH show ?thesis
      by (auto simp: split_def Let_def)
  qed
qed

lemma loop_violations:
  "violations (validateAll_loop ts checks order r rsn)
   = violations r @ replicate (length (filter (fails ts order) checks)) NONE"
proof (induction checks arbitrary: r rsn)
  case Nil
  then show ?case by simp
next
  case (Cons c cs)
  show ?case
  proof (cases "fails ts order c")
    case True
    with fails_now[OF True, of rsn] Cons.IH show ?thesis
      by (simp add: split_def Let_def addViolation_def replicate_app_Cons_same)
  next
    case False
    with passes_now[OF False, of rsn] Cons.IH show ?thesis
      by (auto simp: split_def Let_def)
  qed
qed

lemma loop_reason:
  "reason (validateAll_loop ts checks order r rsn)
   = foldl (\<lambda>acc m. (if acc \<noteq> [] then acc @ ''; '' else acc) @ m) (reason r)
       (map (\<lambda>c. snd (validate ts c order [])) (filter (fails ts order) checks))"
proof (induction checks arbitrary: r rsn)
  case Nil
  then show ?case by simp
next
  case (Cons c cs)
  show ?case
  proof (cases "fails ts order c")
    case True
    have msg: "snd (validate ts c order rsn) = snd (validate ts c order [])"
      using fails_now[OF True, of rsn] by (intro validate_message_indep) simp
    with True fails_now[OF True, of rsn] Cons.IH show ?thesis
      by (simp add: split_def Let_def addViolation_def)
  next
    case False
    with passes_now[OF False, of rsn] Cons.IH show ?thesis
      by (auto simp: split_def Let_def)
  qed
qed

lemma validateAll_result:
  "approved (validateAll ts checks order) = (filter (fails ts order) checks = [])
   \<and> violations (validateAll ts checks order)
     = replicate (length (filter (fails ts order) checks)) NONE
   \<and> reason (validateAll ts checks order)
     = foldl (\<lambda>acc m. (if acc \<noteq> [] then acc @ ''; '' else acc) @ m) []
         (map (\<lambda>c. snd (validate ts c order [])) (filter (fails ts order) checks))"
  by (simp add: validateAll_def loop_approved loop_violations loop_reason
      RiskCheckResult_new_def)

text \<open>
  C4. A rejected order is to carry one violation tag for every failing check, the tag
  naming the check: FatFinger, Drawdown, Concentration. The code tags every failure with
  \<open>NONE\<close>. A buy of 60 000 AAPL at 150 fails the three checks of the scenarios at once: the
  result is not approved, its reason joins the three messages, and its tags are
  \<open>NONE\<close>, \<open>NONE\<close>, \<open>NONE\<close> where FatFinger, Drawdown, Concentration are due.
\<close>

theorem risk_battery_tags:
  "validateAll ts [FatFinger scenario_fat_finger, Drawdown scenario_drawdown,
                   Concentration scenario_concentration] (mk_order 60000 BUY 150)
   = \<lparr>approved = False,
      violations = [NONE, NONE, NONE],
      reason = ''Order quantity '' @ ts (Num 60000) @ '' exceeds '' @ ts (Num 5) @
               ''% of ADV ('' @ ts (Num 50000) @ '')'' @ ''; '' @
               ''Strategy is in '' @ ts (Num 6) @ ''% drawdown, exceeds limit of '' @
               ts (Num 5) @ ''%'' @ ''; '' @
               ''Order would result in '' @ ts (Num 900) @ ''% concentration in AAPL'' @
               '', exceeds limit of '' @ ts (Num 10) @ ''%''\<rparr>"
  by (simp add: validateAll_def RiskCheckResult_new_def addViolation_def
      scenario_fat_finger_def scenario_drawdown_def scenario_concentration_def mk_order_def
      FatFingerCheck_validate_def DrawdownCheck_validate_def ConcentrationCheck_validate_def
      dgt_def dle_def deq_def Let_def)


section \<open>Drawdown check\<close>

text \<open>
  C9. \<^verbatim>\<open>DrawdownCheck::validate\<close> accepts every order when the start-of-day net asset value
  is at most 0. Otherwise, with the drawdown \<open>- currentPnL / startOfDayNAV\<close>, it
  rejects exactly the orders whose side is Buy while the drawdown exceeds the limit; a
  Sell order is always accepted. The drawdown and the comparison are the double
  quotient and the double comparison of the code.
\<close>

theorem drawdown_check_validate:
  "(dle (startOfDayNAV c) (Num 0) \<longrightarrow> fst (DrawdownCheck_validate ts c order rsn))
   \<and> (\<not> dle (startOfDayNAV c) (Num 0) \<longrightarrow>
        (\<not> fst (DrawdownCheck_validate ts c order rsn))
        = (dgt (ddiv (dneg (currentPnL c)) (startOfDayNAV c)) (maxDrawdownPercentage c)
           \<and> side order = BUY))
   \<and> (side order = SELL \<longrightarrow> fst (DrawdownCheck_validate ts c order rsn))"
  by (simp add: DrawdownCheck_validate_def Let_def)

text \<open>The scenario of the specification: with a net asset value of 1 000 000 and a loss
  of 60 000 the drawdown is 6 percent; a Buy is rejected and a Sell accepted; with no
  baseline the Buy is accepted.\<close>

theorem drawdown_check_validate_witness:
  "dle (startOfDayNAV (scenario_drawdown\<lparr>startOfDayNAV := Num 0\<rparr>)) (Num 0)
   \<and> fst (DrawdownCheck_validate (\<lambda>d. []) (scenario_drawdown\<lparr>startOfDayNAV := Num 0\<rparr>)
             (mk_order 100 BUY 150) [])
   \<and> \<not> dle (startOfDayNAV scenario_drawdown) (Num 0)
   \<and> \<not> fst (DrawdownCheck_validate (\<lambda>d. []) scenario_drawdown (mk_order 100 BUY 150) [])
   \<and> side (mk_order 100 SELL 150) = SELL
   \<and> fst (DrawdownCheck_validate (\<lambda>d. []) scenario_drawdown (mk_order 100 SELL 150) [])"
  using drawdown_check_validate
          [of "scenario_drawdown\<lparr>startOfDayNAV := Num 0\<rparr>" "\<lambda>d. []" "mk_order 100 BUY 150" "[]"]
        drawdown_check_validate [of scenario_drawdown "\<lambda>d. []" "mk_order 100 BUY 150" "[]"]
        drawdown_check_validate [of scenario_drawdown "\<lambda>d. []" "mk_order 100 SELL 150" "[]"]
  by (simp add: scenario_drawdown_def mk_order_def dle_def deq_def dgt_def)


section \<open>Position manager\<close>

lemma getPosition_lookup: "fst (getPosition pm symb) symb = Some (snd (getPosition pm symb))"
  by (simp add: getPosition_def Let_def split: option.splits)

lemma getPosition_other: "s \<noteq> symb \<Longrightarrow> fst (getPosition pm symb) s = pm s"
  by (simp add: getPosition_def Let_def split: option.splits)

lemma getPosition_existing: "pm symb = Some pos \<Longrightarrow> getPosition pm symb = (pm, pos)"
  by (simp add: getPosition_def)

lemma getPosition_fresh:
  "pm symb = None \<Longrightarrow> snd (getPosition pm symb) = Position_new\<lparr>pos_symbol := symb\<rparr>"
  by (simp add: getPosition_def Let_def)

text \<open>The entry of the updated symbol: the position that \<^verbatim>\<open>getPosition\<close> returned, with a
  new average cost and a new quantity.\<close>

lemma updatePosition_at:
  "updatePosition pm symb dq p symb
   = Some ((snd (getPosition pm symb))
       \<lparr>avgCost := (if \<not> deq (dadd (pos_quantity (snd (getPosition pm symb))) dq) (Num 0)
                    then ddiv (dadd (dmul (pos_quantity (snd (getPosition pm symb)))
                                          (avgCost (snd (getPosition pm symb))))
                                    (dmul dq p))
                              (dadd (pos_quantity (snd (getPosition pm symb))) dq)
                    else Num 0),
        pos_quantity := dadd (pos_quantity (snd (getPosition pm symb))) dq\<rparr>)"
  by (simp add: updatePosition_def split_def Let_def)

lemma updatePosition_other: "s \<noteq> symb \<Longrightarrow> updatePosition pm symb dq p s = pm s"
  by (simp add: updatePosition_def split_def Let_def getPosition_other)

lemma pm_inv_empty: "pm_inv Map.empty"
  by (simp add: pm_inv_def)

lemma pm_inv_getPosition: "pm_inv pm \<Longrightarrow> pm_inv (fst (getPosition pm symb))"
  by (auto simp: pm_inv_def getPosition_def Let_def Position_new_def
      split: option.splits if_splits)

lemma pm_inv_snd_getPosition:
  "pm_inv pm \<Longrightarrow> pos_symbol (snd (getPosition pm symb)) = symb
     \<and> unrealizedPnL (snd (getPosition pm symb)) = Num 0
     \<and> realizedPnL (snd (getPosition pm symb)) = Num 0"
  using getPosition_lookup[of pm symb] pm_inv_getPosition[of pm symb]
  unfolding pm_inv_def by blast

lemma pm_inv_updatePosition:
  assumes "pm_inv pm"
  shows "pm_inv (updatePosition pm symb dq p)"
  unfolding pm_inv_def
proof (intro allI impI)
  fix s pos
  assume h: "updatePosition pm symb dq p s = Some pos"
  show "pos_symbol pos = s \<and> unrealizedPnL pos = Num 0 \<and> realizedPnL pos = Num 0"
  proof (cases "s = symb")
    case True
    with h pm_inv_snd_getPosition[OF assms, of symb] show ?thesis
      by (auto simp: updatePosition_at)
  next
    case False
    with h assms show ?thesis by (simp add: updatePosition_other pm_inv_def)
  qed
qed

lemma pm_reachable_inv: "pm_reachable pm \<Longrightarrow> pm_inv pm"
  by (induction rule: pm_reachable.induct)
     (simp_all add: pm_inv_empty pm_inv_getPosition pm_inv_updatePosition)





text \<open>
  C10. \<^verbatim>\<open>updatePosition(symbol, dq, p)\<close> leaves the position of every other symbol as it
  was. In the position of the symbol itself (the existing one, or the one created with
  that symbol and zeros when there was none) the symbol and both PnL fields are unchanged.
  In every state that the manager reaches from the empty one by its own operations, each
  position is filed under its own symbol and both PnL fields are 0, after the update too.
\<close>

theorem update_position_frame:
  "(\<forall>s. s \<noteq> symb \<longrightarrow> updatePosition pm symb dq p s = pm s)
   \<and> map_option pos_symbol (updatePosition pm symb dq p symb)
       = Some (pos_symbol (snd (getPosition pm symb)))
   \<and> map_option unrealizedPnL (updatePosition pm symb dq p symb)
       = Some (unrealizedPnL (snd (getPosition pm symb)))
   \<and> map_option realizedPnL (updatePosition pm symb dq p symb)
       = Some (realizedPnL (snd (getPosition pm symb)))
   \<and> (\<forall>pos. pm symb = Some pos \<longrightarrow> snd (getPosition pm symb) = pos)
   \<and> (pm symb = None \<longrightarrow> snd (getPosition pm symb) = Position_new\<lparr>pos_symbol := symb\<rparr>)
   \<and> (pm_reachable pm \<longrightarrow>
        (\<forall>s pos. updatePosition pm symb dq p s = Some pos \<longrightarrow>
           pos_symbol pos = s \<and> unrealizedPnL pos = Num 0 \<and> realizedPnL pos = Num 0))"
proof -
  have "pm_reachable pm \<Longrightarrow> pm_inv (updatePosition pm symb dq p)"
    by (simp add: pm_reachable_inv pm_inv_updatePosition)
  then show ?thesis
    by (simp add: updatePosition_at updatePosition_other getPosition_existing getPosition_fresh
        pm_inv_def)
qed

text \<open>A manager that holds 10 MSFT bought at 300 buys 100 AAPL at 150 and then 5 more MSFT
  at 310: the MSFT position is untouched by the first update, the AAPL position is created
  with zero PnL, and in the second update the symbol and PnL of the existing MSFT position
  stay.\<close>

theorem update_position_frame_witness:
  "pm_reachable (updatePosition Map.empty ''MSFT'' (Num 10) (Num 300))
   \<and> ''MSFT'' \<noteq> ''AAPL''
   \<and> updatePosition (updatePosition Map.empty ''MSFT'' (Num 10) (Num 300))
        ''AAPL'' (Num 100) (Num 150) ''MSFT''
     = updatePosition Map.empty ''MSFT'' (Num 10) (Num 300) ''MSFT''
   \<and> updatePosition Map.empty ''MSFT'' (Num 10) (Num 300) ''AAPL'' = None
   \<and> updatePosition (updatePosition Map.empty ''MSFT'' (Num 10) (Num 300))
        ''AAPL'' (Num 100) (Num 150) ''AAPL''
     = Some \<lparr>pos_symbol = ''AAPL'', pos_quantity = Num 100, avgCost = Num 150,
             unrealizedPnL = Num 0, realizedPnL = Num 0\<rparr>
   \<and> updatePosition Map.empty ''MSFT'' (Num 10) (Num 300) ''MSFT''
     = Some \<lparr>pos_symbol = ''MSFT'', pos_quantity = Num 10, avgCost = Num 300,
             unrealizedPnL = Num 0, realizedPnL = Num 0\<rparr>
   \<and> map_option pos_symbol
        (updatePosition (updatePosition Map.empty ''MSFT'' (Num 10) (Num 300))
           ''MSFT'' (Num 5) (Num 310) ''MSFT'') = Some ''MSFT''
   \<and> map_option unrealizedPnL
        (updatePosition (updatePosition Map.empty ''MSFT'' (Num 10) (Num 300))
           ''MSFT'' (Num 5) (Num 310) ''MSFT'') = Some (Num 0)
   \<and> map_option realizedPnL
        (updatePosition (updatePosition Map.empty ''MSFT'' (Num 10) (Num 300))
           ''MSFT'' (Num 5) (Num 310) ''MSFT'') = Some (Num 0)"
proof -
  have r: "pm_reachable (updatePosition Map.empty ''MSFT'' (Num 10) (Num 300))"
    by (intro pm_update pm_empty)
  have m: "updatePosition Map.empty ''MSFT'' (Num 10) (Num 300) ''MSFT''
           = Some \<lparr>pos_symbol = ''MSFT'', pos_quantity = Num 10, avgCost = Num 300,
                   unrealizedPnL = Num 0, realizedPnL = Num 0\<rparr>"
    by (simp add: updatePosition_at getPosition_fresh Position_new_def deq_def)
  have a: "updatePosition Map.empty ''MSFT'' (Num 10) (Num 300) ''AAPL'' = None"
    by (simp add: updatePosition_other)
  have n: "updatePosition (updatePosition Map.empty ''MSFT'' (Num 10) (Num 300))
             ''AAPL'' (Num 100) (Num 150) ''AAPL''
           = Some \<lparr>pos_symbol = ''AAPL'', pos_quantity = Num 100, avgCost = Num 150,
                   unrealizedPnL = Num 0, realizedPnL = Num 0\<rparr>"
    using getPosition_fresh
            [of "updatePosition Map.empty ''MSFT'' (Num 10) (Num 300)" "''AAPL''", OF a]
    by (simp add: updatePosition_at Position_new_def deq_def)
  note f1 = update_position_frame
    [of "''AAPL''" "updatePosition Map.empty ''MSFT'' (Num 10) (Num 300)" "Num 100" "Num 150"]
  note f2 = update_position_frame
    [of "''MSFT''" "updatePosition Map.empty ''MSFT'' (Num 10) (Num 300)" "Num 5" "Num 310"]
  have other: "updatePosition (updatePosition Map.empty ''MSFT'' (Num 10) (Num 300))
                 ''AAPL'' (Num 100) (Num 150) ''MSFT''
               = updatePosition Map.empty ''MSFT'' (Num 10) (Num 300) ''MSFT''"
    using f1 by simp
  have before: "snd (getPosition (updatePosition Map.empty ''MSFT'' (Num 10) (Num 300)) ''MSFT'')
                = \<lparr>pos_symbol = ''MSFT'', pos_quantity = Num 10, avgCost = Num 300,
                     unrealizedPnL = Num 0, realizedPnL = Num 0\<rparr>"
    using f2 m by blast
  have kept: "map_option pos_symbol
                (updatePosition (updatePosition Map.empty ''MSFT'' (Num 10) (Num 300))
                   ''MSFT'' (Num 5) (Num 310) ''MSFT'') = Some ''MSFT''"
    "map_option unrealizedPnL
                (updatePosition (updatePosition Map.empty ''MSFT'' (Num 10) (Num 300))
                   ''MSFT'' (Num 5) (Num 310) ''MSFT'') = Some (Num 0)"
    "map_option realizedPnL
                (updatePosition (updatePosition Map.empty ''MSFT'' (Num 10) (Num 300))
                   ''MSFT'' (Num 5) (Num 310) ''MSFT'') = Some (Num 0)"
    using f2 unfolding before by simp_all
  show ?thesis
    by (intro conjI r m a n other kept) simp
qed


section \<open>Strategy lifecycle\<close>

text \<open>MeanReversionAlpha: \<^verbatim>\<open>shutdown\<close> empties the history and clears the flag, and a
  strategy whose flag is clear returns none on every tick and stays as it is.\<close>

lemma mr_shutdown_state:
  "priceHistory (mr_shutdown s) = [] \<and> \<not> mr_initialized (mr_shutdown s)
   \<and> \<not> mr_isActive (mr_shutdown s)"
  by (simp add: mr_shutdown_def mr_isActive_def)

lemma mr_uninitialized_silent:
  "\<not> mr_initialized s \<Longrightarrow> mr_feed s ds = (s, replicate (length ds) None)"
  by (induction ds) (simp_all add: mr_onMarketData_def)

lemma mr_silent_after_shutdown:
  "mr_feed (mr_shutdown s) ds = (mr_shutdown s, replicate (length ds) None)"
  by (rule mr_uninitialized_silent) (simp add: mr_shutdown_def)

text \<open>MomentumAlpha has no flag: its \<^verbatim>\<open>shutdown\<close> is its \<^verbatim>\<open>initialize\<close>.\<close>

lemma mo_shutdown_eq_initialize: "mo_shutdown s = mo_initialize s"
  by (simp add: mo_shutdown_def mo_initialize_def)

text \<open>
  C5. After \<^verbatim>\<open>shutdown()\<close> a strategy is to be uninitialized and to emit nothing until it
  is initialized again. MeanReversionAlpha does so (lemma \<open>mr_silent_after_shutdown\<close>).
  MomentumAlpha does not: its \<^verbatim>\<open>shutdown\<close> empties the returns and forgets the last price,
  but the strategy stays active, and fed the prices 100, 101, 102, 103 after the shutdown
  (lookback 3) it emits a signal on the fourth tick.
\<close>

theorem momentum_emits_after_shutdown:
  "returns (mo_shutdown (mo_initialize (MomentumAlpha_new ''mom'' 3))) = []
   \<and> mo_lastPrice (mo_shutdown (mo_initialize (MomentumAlpha_new ''mom'' 3))) = None
   \<and> mo_isActive (mo_shutdown (mo_initialize (MomentumAlpha_new ''mom'' 3)))
   \<and> snd (mo_feed (mo_shutdown (mo_initialize (MomentumAlpha_new ''mom'' 3)))
                  [tick 100 1, tick 101 2, tick 102 3, tick 103 4])
     = [None, None, None,
        Some \<lparr>sig_alphaId = ''mom'', sig_symbol = ''AAPL'',
              signal = Num (tanh ((1 / 100 + 1 / 101 + 1 / 102) * 10)),
              confidence = Num 1, sig_timestampNs = 4\<rparr>]"
  by (simp add: mo_shutdown_def mo_initialize_def MomentumAlpha_new_def mo_isActive_def tick_def
      mo_onMarketData_def size_t_3 Let_def dsub_def dgt_def of_size_def)


section \<open>Ranges of the emitted signals\<close>

text \<open>MeanReversionAlpha clamps: whatever the z-score is, a NaN included, the signal is in
  \<open>[-1, 1]\<close> and the confidence in \<open>[0, 1]\<close>.\<close>

lemma clamp_in_range: "in_range (- 1) 1 (std_max (Num (- 1)) (std_min (Num 1) x))"
  by (cases x) (auto simp: in_range_def std_max_def std_min_def dle_def deq_def)

lemma confidence_in_range: "in_range 0 1 (std_min (Num 1) (ddiv (dabs z) (Num 3)))"
  by (cases z) (auto simp: in_range_def std_min_def dle_def deq_def)

lemma mr_emitted_in_range:
  assumes "mr_onMarketData s d = (s', Some sg)"
  shows "in_range (- 1) 1 (signal sg) \<and> in_range 0 1 (confidence sg)"
  using assms clamp_in_range confidence_in_range
  by (auto simp: mr_onMarketData_def Let_def MIN_SIGNAL_def MAX_SIGNAL_def split: if_splits)

text \<open>MomentumAlpha does not clamp. Its signal is a hyperbolic tangent, which is in range
  unless it is NaN; its confidence is in range when the lookback is not 0.\<close>

lemma dtanh_range: "dtanh x = NaN \<or> in_range (- 1) 1 (dtanh x)"
proof (cases x)
  case (Num r)
  have "- 1 < tanh r" "tanh r < 1"
    by (rule tanh_real_gt_neg1, rule tanh_real_lt_1)
  then show ?thesis using Num by (simp add: in_range_def dle_Num)
qed (simp_all add: in_range_def dle_def deq_def)

lemma consistency_in_range:
  assumes "k \<le> n" "0 < n"
  shows "in_range 0 1 (dmul (dabs (dsub (ddiv (of_size k) (of_size n)) (Num (1 / 2)))) (Num 2))"
proof -
  define x where "x = real k / real n"
  have "0 \<le> x" "x \<le> 1" using assms by (simp_all add: x_def)
  then have "\<bar>x - 1 / 2\<bar> * 2 \<le> 1" by (auto simp: abs_if)
  then show ?thesis using assms unfolding x_def
    by (simp add: of_size_def dsub_def in_range_def dle_Num)
qed

lemma mo_emitted_range:
  assumes "mo_onMarketData s d = (s', Some sg)"
  shows "(signal sg = NaN \<or> in_range (- 1) 1 (signal sg))
         \<and> (0 < size_t_of_int (lookbackPeriod s) \<longrightarrow> in_range 0 1 (confidence sg))"
proof -
  define rs where "rs = returns s'"
  have len: "\<not> length rs < size_t_of_int (lookbackPeriod s)"
    and sg: "signal sg = dtanh (dmul (foldl dadd (Num 0) rs) (Num 10))"
    and cf: "confidence sg
             = dmul (dabs (dsub (ddiv (of_size (length (filter (\<lambda>r. dgt r (Num 0)) rs)))
                                      (of_size (length rs)))
                                (Num (1 / 2))))
                    (Num 2)"
    using assms unfolding rs_def
    by (auto simp: mo_onMarketData_def Let_def split: if_splits option.splits)
  show ?thesis
  proof
    show "signal sg = NaN \<or> in_range (- 1) 1 (signal sg)"
      unfolding sg by (rule dtanh_range)
    show "0 < size_t_of_int (lookbackPeriod s) \<longrightarrow> in_range 0 1 (confidence sg)"
    proof
      assume "0 < size_t_of_int (lookbackPeriod s)"
      with len have "0 < length rs" by linarith
      then show "in_range 0 1 (confidence sg)"
        unfolding cf by (intro consistency_in_range) simp_all
    qed
  qed
qed

text \<open>
  C6. Every emitted signal is to have its value in \<open>[-1, 1]\<close> and its confidence in
  \<open>[0, 1]\<close>. MeanReversionAlpha keeps both (lemma \<open>mr_emitted_in_range\<close>). MomentumAlpha
  divides by the previous price without a check: with lookback 1 and two ticks of price 0
  the return is 0 / 0, a NaN, and the second tick emits a signal whose value is NaN, which
  is in no interval.
\<close>

theorem momentum_signal_nan:
  "snd (mo_feed (mo_initialize (MomentumAlpha_new ''mom'' 1)) [tick 0 1, tick 0 2])
     = [None,
        Some \<lparr>sig_alphaId = ''mom'', sig_symbol = ''AAPL'', signal = NaN,
              confidence = Num 1, sig_timestampNs = 2\<rparr>]
   \<and> \<not> in_range (- 1) 1 NaN"
  by (simp add: mo_initialize_def MomentumAlpha_new_def tick_def mo_onMarketData_def size_t_1
      Let_def dsub_def dgt_def of_size_def in_range_def dle_def deq_def)


section \<open>NYSE normalizer\<close>

lemma nyse_short_frame: "len < 64 \<Longrightarrow> NYSENormalizer_normalize rawData len = None"
  by (simp add: NYSENormalizer_normalize_def)

text \<open>What the validation establishes for an emitted tick, in the comparisons of the
  code: the three base comparisons hold and the spread does not compare greater than a
  tenth of the mid price.\<close>

lemma nyse_emitted_valid:
  assumes "NYSENormalizer_normalize rawData len = Some t"
  shows "64 \<le> len \<and> t = NYSE_parse rawData len
         \<and> dgt (bidPrice t) (Num 0) \<and> dgt (askPrice t) (Num 0) \<and> dge (askPrice t) (bidPrice t)
         \<and> \<not> dgt (spread t) (dmul (midPrice t) (Num (1 / 10)))"
  using assms
  by (auto simp: NYSENormalizer_normalize_def Let_def NYSENormalizer_validate_def
        DataNormalizer_validate_def split: if_splits)

lemma nyse_invalid_dropped:
  assumes "\<not> dgt (bidPrice (NYSE_parse rawData len)) (Num 0)
           \<or> \<not> dgt (askPrice (NYSE_parse rawData len)) (Num 0)
           \<or> \<not> dge (askPrice (NYSE_parse rawData len)) (bidPrice (NYSE_parse rawData len))
           \<or> dgt (spread (NYSE_parse rawData len))
                  (dmul (midPrice (NYSE_parse rawData len)) (Num (1 / 10)))"
  shows "NYSENormalizer_normalize rawData len = None"
  using assms
  by (auto simp: NYSENormalizer_normalize_def Let_def NYSENormalizer_validate_def
        DataNormalizer_validate_def)

text \<open>Reading the frames of the scenarios.\<close>

lemma le_nat_inf: "le_nat bytes_inf = 0x7FF0000000000000"
  by (simp add: le_nat_def bytes_inf_def)

lemma le_nat_one: "le_nat bytes_one = 0x3FF0000000000000"
  by (simp add: le_nat_def bytes_one_def)

lemma le_nat_zeros: "le_nat (replicate n 0) = 0"
  by (induction n) (simp_all add: le_nat_def)

lemma double_inf: "double_of_bits 0x7FF0000000000000 = PosInf"
  by (simp add: double_of_bits_def Let_def)

lemma double_one: "double_of_bits 0x3FF0000000000000 = Num 1"
  by (simp add: double_of_bits_def Let_def)

lemma double_zero: "double_of_bits 0 = Num 0"
  by (simp add: double_of_bits_def Let_def)

lemma parse_frame_bid:
  "length bid = 8 \<Longrightarrow> parseField_double (nyse_frame bid ask) 0 = double_of_bits (le_nat bid)"
  by (simp add: parseField_double_def nyse_frame_def)

lemma parse_frame_ask:
  "length bid = 8 \<Longrightarrow> length ask = 8 \<Longrightarrow>
   parseField_double (nyse_frame bid ask) 8 = double_of_bits (le_nat ask)"
  by (simp add: parseField_double_def nyse_frame_def)

lemma parse_frame_rest_double:
  "length bid = 8 \<Longrightarrow> length ask = 8 \<Longrightarrow> 16 \<le> off \<Longrightarrow>
   parseField_double (nyse_frame bid ask) off = Num 0"
  by (simp add: parseField_double_def nyse_frame_def take_replicate le_nat_zeros double_zero)

lemma parse_frame_rest_int:
  "length bid = 8 \<Longrightarrow> length ask = 8 \<Longrightarrow> 16 \<le> off \<Longrightarrow>
   parseField_int64 (nyse_frame bid ask) off = 0"
  by (simp add: parseField_int64_def nyse_frame_def take_replicate le_nat_zeros)

lemma parse_frame_symbol:
  "length bid = 8 \<Longrightarrow> length ask = 8 \<Longrightarrow>
   takeWhile (\<lambda>b. b \<noteq> 0) (take (min (64 - 56) 15) (drop 56 (nyse_frame bid ask))) = []"
  by (simp add: nyse_frame_def take_replicate)

lemma NYSE_parse_frame:
  assumes "length bid = 8" "length ask = 8"
  shows "NYSE_parse (nyse_frame bid ask) 64
   = \<lparr>fd_symbol = [], bidPrice = double_of_bits (le_nat bid),
      askPrice = double_of_bits (le_nat ask), lastPrice = Num 0, bidSize = 0, askSize = 0,
      fd_volume = 0, fd_timestampNs = 0, assetType = EQUITY, exchange = NYSE\<rparr>"
  unfolding NYSE_parse_def
  by (simp only: parse_frame_bid[OF assms(1)] parse_frame_ask[OF assms]
        parse_frame_rest_double[OF assms] parse_frame_rest_int[OF assms]
        parse_frame_symbol[OF assms])

text \<open>A frame with bid 1.0 and ask 1.0 is emitted.\<close>

lemma nyse_valid_frame:
  "NYSENormalizer_normalize (nyse_frame bytes_one bytes_one) 64
     = Some \<lparr>fd_symbol = [], bidPrice = Num 1, askPrice = Num 1, lastPrice = Num 0,
             bidSize = 0, askSize = 0, fd_volume = 0, fd_timestampNs = 0,
             assetType = EQUITY, exchange = NYSE\<rparr>"
proof -
  have len: "length bytes_one = 8" by (simp add: bytes_one_def)
  show ?thesis
    by (simp add: NYSENormalizer_normalize_def NYSE_parse_frame[OF len len] le_nat_one double_one
        NYSENormalizer_validate_def DataNormalizer_validate_def spread_def midPrice_def
        dgt_def dge_def dle_def deq_def dsub_def)
qed

text \<open>
  C7. A frame shorter than 64 bytes gives none (lemma \<open>nyse_short_frame\<close>), and an emitted
  tick has \<open>bid > 0\<close>, \<open>ask > 0\<close> and \<open>ask \<ge> bid\<close> (lemma \<open>nyse_emitted_valid\<close>). But a
  frame whose parsed fields violate the spread condition is to give none, and the frame of 64 bytes
  whose bid and ask are both \<open>+\<infinity>\<close> is emitted: the three base comparisons hold, the
  spread \<open>\<infinity> - \<infinity>\<close> is NaN, and the code rejects only when the spread compares greater
  than a tenth of the mid price, which a NaN never does. For the emitted tick
  \<open>ask - bid \<le> 0.1 * (ask + bid) / 2\<close> is false.
\<close>

theorem nyse_accepts_infinite_prices:
  "length (nyse_frame bytes_inf bytes_inf) = 64
   \<and> NYSENormalizer_normalize (nyse_frame bytes_inf bytes_inf) 64
     = Some \<lparr>fd_symbol = [], bidPrice = PosInf, askPrice = PosInf, lastPrice = Num 0,
             bidSize = 0, askSize = 0, fd_volume = 0, fd_timestampNs = 0,
             assetType = EQUITY, exchange = NYSE\<rparr>
   \<and> dsub PosInf PosInf = NaN
   \<and> \<not> dle (dsub PosInf PosInf) (dmul (Num (1 / 10)) (ddiv (dadd PosInf PosInf) (Num 2)))"
proof -
  have len: "length bytes_inf = 8" by (simp add: bytes_inf_def)
  have flen: "length (nyse_frame bytes_inf bytes_inf) = 64" by (simp add: nyse_frame_def len)
  show ?thesis
    by (simp add: NYSENormalizer_normalize_def NYSE_parse_frame[OF len len] le_nat_inf double_inf
        NYSENormalizer_validate_def DataNormalizer_validate_def spread_def midPrice_def
        dgt_def dge_def dle_def deq_def dsub_def flen)
qed

end
